theory Spec2Isabelle
  imports Main "HOL-Library.AList"
begin

section \<open>Python values\<close>

text \<open>
  The program works on the values that \<^verbatim>\<open>response.json()\<close> produces and on the
  dictionaries it builds from them. A float is represented by the two observations the
  program makes of one: whether it is non-zero (its truth value) and its \<^verbatim>\<open>str\<close>.
  A character of a string stands for one code point.
\<close>

datatype pyfloat = PyFloat (float_nonzero: bool) (float_repr: string)

datatype pyval =
    PNone
  | PBool bool
  | PInt int
  | PFloat pyfloat
  | PStr string
  | PList "pyval list"
  | PDict "(string \<times> pyval) list"

type_synonym pydict = "(string \<times> pyval) list"

text \<open>The exceptions the handlers of the program tell apart, with \<^verbatim>\<open>str(e)\<close>.\<close>

datatype exc_class = RequestException | OtherException

datatype py_exc = PyExc (exc_class: exc_class) (exc_text: string)

subsection \<open>Truth value, \<^verbatim>\<open>or\<close>, \<^verbatim>\<open>dict.get\<close>\<close>

fun truthy :: "pyval \<Rightarrow> bool" where
  "truthy PNone = False"
| "truthy (PBool b) = b"
| "truthy (PInt n) = (n \<noteq> 0)"
| "truthy (PFloat f) = float_nonzero f"
| "truthy (PStr s) = (s \<noteq> [])"
| "truthy (PList xs) = (xs \<noteq> [])"
| "truthy (PDict kvs) = (kvs \<noteq> [])"

definition py_or :: "pyval \<Rightarrow> pyval \<Rightarrow> pyval" where
  "py_or a b = (if truthy a then a else b)"

definition dict_get :: "pydict \<Rightarrow> string \<Rightarrow> pyval \<Rightarrow> pyval" where
  "dict_get d k dflt = (case map_of d k of Some v \<Rightarrow> v | None \<Rightarrow> dflt)"

fun is_str :: "pyval \<Rightarrow> bool" where
  "is_str (PStr s) = True"
| "is_str v = False"

fun is_list :: "pyval \<Rightarrow> bool" where
  "is_list (PList xs) = True"
| "is_list v = False"

fun is_dict :: "pyval \<Rightarrow> bool" where
  "is_dict (PDict d) = True"
| "is_dict v = False"

subsection \<open>\<^verbatim>\<open>str\<close> and \<^verbatim>\<open>repr\<close>\<close>

definition digit_char :: "nat \<Rightarrow> char" where
  "digit_char n = ''0123456789abcdef'' ! (n mod 16)"

fun nat_str :: "nat \<Rightarrow> string" where
  "nat_str n = (if n < 10 then [digit_char n] else nat_str (n div 10) @ [digit_char (n mod 10)])"

declare nat_str.simps [simp del]

definition int_str :: "int \<Rightarrow> string" where
  "int_str i = (if i < 0 then CHR ''-'' # nat_str (nat (- i)) else nat_str (nat i))"

definition printable :: "char \<Rightarrow> bool" where
  "printable c = (let n = (of_char c :: nat) in (32 \<le> n \<and> n < 127) \<or> (161 \<le> n \<and> n \<noteq> 173))"

definition repr_char :: "char \<Rightarrow> char \<Rightarrow> string" where
  "repr_char q c =
     (if c = q \<or> c = CHR 0x5C then [CHR 0x5C, c]
      else if c = CHR 0x09 then [CHR 0x5C, CHR ''t'']
      else if c = CHR 0x0A then [CHR 0x5C, CHR ''n'']
      else if c = CHR 0x0D then [CHR 0x5C, CHR ''r'']
      else if printable c then [c]
      else [CHR 0x5C, CHR ''x'', digit_char (of_char c div 16), digit_char (of_char c mod 16)])"

definition repr_str :: "string \<Rightarrow> string" where
  "repr_str s =
     (let q = (if CHR 0x27 \<in> set s \<and> CHR 0x22 \<notin> set s then CHR 0x22 else CHR 0x27)
      in [q] @ concat (map (repr_char q) s) @ [q])"

fun join :: "string \<Rightarrow> string list \<Rightarrow> string" where
  "join sep [] = []"
| "join sep [x] = x"
| "join sep (x # y # ys) = x @ sep @ join sep (y # ys)"

primrec py_repr :: "pyval \<Rightarrow> string" where
  "py_repr PNone = ''None''"
| "py_repr (PBool b) = (if b then ''True'' else ''False'')"
| "py_repr (PInt i) = int_str i"
| "py_repr (PFloat f) = float_repr f"
| "py_repr (PStr s) = repr_str s"
| "py_repr (PList xs) = ''['' @ join '', '' (map py_repr xs) @ '']''"
| "py_repr (PDict kvs) =
     ''{'' @ join '', '' (map (\<lambda>kv. repr_str (fst kv) @ '': '' @ snd kv) (map (map_prod id py_repr) kvs)) @ ''}''"

text \<open>\<^verbatim>\<open>str(v)\<close>, which is also what an f-string field \<^verbatim>\<open>{v}\<close> inserts.\<close>

definition py_str :: "pyval \<Rightarrow> string" where
  "py_str v = (case v of PStr s \<Rightarrow> s | _ \<Rightarrow> py_repr v)"

fun type_name :: "pyval \<Rightarrow> string" where
  "type_name PNone = ''NoneType''"
| "type_name (PBool b) = ''bool''"
| "type_name (PInt i) = ''int''"
| "type_name (PFloat f) = ''float''"
| "type_name (PStr s) = ''str''"
| "type_name (PList xs) = ''list''"
| "type_name (PDict d) = ''dict''"

subsection \<open>Operations that raise on the wrong type\<close>

definition attribute_error :: "pyval \<Rightarrow> string \<Rightarrow> py_exc" where
  "attribute_error v attr =
     PyExc OtherException
       ([CHR 0x27] @ type_name v @ [CHR 0x27] @ '' object has no attribute '' @ [CHR 0x27] @ attr @ [CHR 0x27])"

text \<open>\<^verbatim>\<open>v.get(k, dflt)\<close> on a value that need not be a dict.\<close>

definition py_get :: "pyval \<Rightarrow> string \<Rightarrow> pyval \<Rightarrow> py_exc + pyval" where
  "py_get v k dflt =
     (case v of PDict d \<Rightarrow> Inr (dict_get d k dflt) | _ \<Rightarrow> Inl (attribute_error v ''get''))"

definition starts_with :: "string \<Rightarrow> string \<Rightarrow> bool" where
  "starts_with s sub = (take (length sub) s = sub)"

fun contains_str :: "string \<Rightarrow> string \<Rightarrow> bool" where
  "contains_str [] sub = (sub = [])"
| "contains_str (c # cs) sub = (starts_with (c # cs) sub \<or> contains_str cs sub)"

text \<open>\<^verbatim>\<open>k in v\<close> for a string \<open>k\<close>.\<close>

definition py_in :: "string \<Rightarrow> pyval \<Rightarrow> py_exc + bool" where
  "py_in k v =
     (case v of
        PDict d \<Rightarrow> Inr (map_of d k \<noteq> None)
      | PList xs \<Rightarrow> Inr (PStr k \<in> set xs)
      | PStr s \<Rightarrow> Inr (contains_str s k)
      | _ \<Rightarrow> Inl (PyExc OtherException
                 (''argument of type '' @ [CHR 0x27] @ type_name v @ [CHR 0x27] @ '' is not iterable'')))"

text \<open>\<^verbatim>\<open>v[k]\<close> for a string \<open>k\<close>.\<close>

definition py_subscript :: "pyval \<Rightarrow> string \<Rightarrow> py_exc + pyval" where
  "py_subscript v k =
     (case v of
        PDict d \<Rightarrow> (case map_of d k of Some x \<Rightarrow> Inr x | None \<Rightarrow> Inl (PyExc OtherException (repr_str k)))
      | PList xs \<Rightarrow> Inl (PyExc OtherException ''list indices must be integers or slices, not str'')
      | PStr s \<Rightarrow> Inl (PyExc OtherException ''string indices must be integers'')
      | _ \<Rightarrow> Inl (PyExc OtherException
                 ([CHR 0x27] @ type_name v @ [CHR 0x27] @ '' object is not subscriptable'')))"

text \<open>\<^verbatim>\<open>v[0]\<close>.\<close>

definition py_first :: "pyval \<Rightarrow> py_exc + pyval" where
  "py_first v =
     (case v of
        PList xs \<Rightarrow> (case xs of [] \<Rightarrow> Inl (PyExc OtherException ''list index out of range'') | x # _ \<Rightarrow> Inr x)
      | PStr s \<Rightarrow> (case s of [] \<Rightarrow> Inl (PyExc OtherException ''string index out of range'') | c # _ \<Rightarrow> Inr (PStr [c]))
      | PDict d \<Rightarrow> Inl (PyExc OtherException ''0'')
      | _ \<Rightarrow> Inl (PyExc OtherException
                 ([CHR 0x27] @ type_name v @ [CHR 0x27] @ '' object is not subscriptable'')))"

definition bind_exc :: "py_exc + 'a \<Rightarrow> ('a \<Rightarrow> py_exc + 'b) \<Rightarrow> py_exc + 'b" where
  "bind_exc r f = (case r of Inl e \<Rightarrow> Inl e | Inr x \<Rightarrow> f x)"

subsection \<open>String methods\<close>

definition is_space :: "char \<Rightarrow> bool" where
  "is_space c = (let n = (of_char c :: nat) in (9 \<le> n \<and> n \<le> 13) \<or> (28 \<le> n \<and> n \<le> 32) \<or> n = 133 \<or> n = 160)"

definition strip :: "string \<Rightarrow> string" where
  "strip s = rev (dropWhile is_space (rev (dropWhile is_space s)))"

text \<open>\<^verbatim>\<open>s.replace('Z', '+00:00')\<close>: every occurrence.\<close>

definition replace_Z :: "string \<Rightarrow> string" where
  "replace_Z s = concat (map (\<lambda>c. if c = CHR ''Z'' then ''+00:00'' else [c]) s)"

section \<open>NewsFetcher: \<^verbatim>\<open>fetch_marketaux_news\<close>\<close>

text \<open>
  What the function reaches outside the program: the configured credential
  (\<^verbatim>\<open>MARKETAUX_API_KEY\<close>), \<^verbatim>\<open>requests.get\<close>, and the two \<^verbatim>\<open>datetime\<close> calls.
  \<open>fromisoformat\<close> is \<open>None\<close> where the library raises \<^verbatim>\<open>ValueError\<close>.
  A response carries its status, its text (\<open>resp_text\<close>) and what \<^verbatim>\<open>response.json()\<close> does.
\<close>

record response =
  status_code :: int
  resp_text :: string
  resp_json :: "py_exc + pyval"

record 'dt platform =
  api_key :: string
  requests_get :: "pydict \<Rightarrow> py_exc + response"
  fromisoformat :: "string \<Rightarrow> 'dt option"
  strftime :: "'dt \<Rightarrow> string \<Rightarrow> string"

text \<open>The returned dict has exactly one key: \<^verbatim>\<open>{"error": msg}\<close> or \<^verbatim>\<open>{"articles": [...]}\<close>.\<close>

datatype fetch_result = FetchError string | Articles "pydict list"

definition MARKETAUX_NEWS_URL :: string where
  "MARKETAUX_NEWS_URL = ''https://api.marketaux.com/v1/news/all''"

definition MARKETAUX_WEBSITE_URL :: string where
  "MARKETAUX_WEBSITE_URL = ''https://www.marketaux.com/''"

text \<open>Lines 90 to 93: the text handed to the analysis.\<close>

definition choose_content :: "pydict \<Rightarrow> pyval" where
  "choose_content article =
     py_or (dict_get article ''description'' PNone)
       (py_or (dict_get article ''snippet'' PNone) (dict_get article ''title'' (PStr [])))"

definition coerce_content :: "pyval \<Rightarrow> pyval" where
  "coerce_content content =
     (if \<not> is_str content then (if content \<noteq> PNone then PStr (py_str content) else PStr [])
      else content)"

text \<open>
  Lines 95 to 105. \<^verbatim>\<open>published_at.replace\<close> exists on a string only; on any other
  true value the \<^verbatim>\<open>AttributeError\<close> leaves the loop.
\<close>

definition published_display :: "'dt platform \<Rightarrow> pyval \<Rightarrow> py_exc + pyval" where
  "published_display pf published_at =
     (if truthy published_at then
        (case published_at of
           PStr s \<Rightarrow>
             (case fromisoformat pf (replace_Z s) of
                Some dt_obj \<Rightarrow> Inr (PStr (strftime pf dt_obj ''%Y-%m-%d %H:%M''))
              | None \<Rightarrow> Inr published_at)
         | _ \<Rightarrow> Inl (attribute_error published_at ''replace''))
      else Inr (PStr ''N/A''))"

text \<open>One round of the loop over \<^verbatim>\<open>raw_articles\<close>: the dict that is appended.\<close>

definition normalize_article :: "'dt platform \<Rightarrow> pyval \<Rightarrow> py_exc + pydict" where
  "normalize_article pf article =
     (case article of
        PDict d \<Rightarrow>
          (let content = coerce_content (choose_content d) in
           bind_exc (published_display pf (dict_get d ''published_at'' PNone))
             (\<lambda>published_dt_str.
                Inr [(''title'', dict_get d ''title'' (PStr ''No Title'')),
                     (''link'', dict_get d ''url'' (PStr ''#'')),
                     (''source'', dict_get d ''source'' (PStr ''Unknown Source'')),
                     (''published_utc'', published_dt_str),
                     (''content_for_analysis'', content)]))
      | _ \<Rightarrow> Inl (attribute_error article ''get''))"

fun normalize_all :: "'dt platform \<Rightarrow> pyval list \<Rightarrow> py_exc + pydict list" where
  "normalize_all pf [] = Inr []"
| "normalize_all pf (article # rest) =
     bind_exc (normalize_article pf article)
       (\<lambda>a. bind_exc (normalize_all pf rest) (\<lambda>as. Inr (a # as)))"

text \<open>Lines 78 to 126: the body of the \<^verbatim>\<open>try\<close> once the status has been accepted.\<close>

definition has_list_data :: "pyval \<Rightarrow> py_exc + bool" where
  "has_list_data data =
     bind_exc (py_in ''data'' data)
       (\<lambda>b. if b then bind_exc (py_subscript data ''data'') (\<lambda>v. Inr (is_list v)) else Inr False)"

definition has_dict_error :: "pyval \<Rightarrow> py_exc + bool" where
  "has_dict_error data =
     bind_exc (py_in ''error'' data)
       (\<lambda>b. if b then bind_exc (py_subscript data ''error'') (\<lambda>v. Inr (is_dict v)) else Inr False)"

definition api_error_result :: "pyval \<Rightarrow> py_exc + fetch_result" where
  "api_error_result data =
     bind_exc (py_subscript data ''error'')
       (\<lambda>error_details.
          bind_exc (py_get error_details ''message'' (PStr ''Unknown API error from MarketAux''))
            (\<lambda>error_message.
               bind_exc (py_get error_details ''code'' (PStr ''N/A''))
                 (\<lambda>error_code.
                    Inr (FetchError (''MarketAux News API Error ('' @ py_str error_code @ ''): ''
                                      @ py_str error_message)))))"

definition read_body :: "'dt platform \<Rightarrow> response \<Rightarrow> py_exc + fetch_result" where
  "read_body pf resp =
     bind_exc (resp_json resp)
       (\<lambda>data.
          bind_exc (has_list_data data)
            (\<lambda>listed.
               if listed then
                 bind_exc (py_get data ''data'' (PList []))
                   (\<lambda>raw. case raw of
                             PList raw_articles \<Rightarrow>
                               bind_exc (normalize_all pf raw_articles) (\<lambda>as. Inr (Articles as))
                           | _ \<Rightarrow> Inl (PyExc OtherException
                                      ([CHR 0x27] @ type_name raw @ [CHR 0x27] @ '' object is not iterable'')))
               else
                 bind_exc (has_dict_error data)
                   (\<lambda>err. if err then api_error_result data
                          else Inr (FetchError ''Unexpected response format received from MarketAux.''))))"

text \<open>Lines 128 to 137: the handler of \<^verbatim>\<open>HTTPError\<close>, with its bare \<^verbatim>\<open>except\<close>.\<close>

definition http_error_msg :: "response \<Rightarrow> string" where
  "http_error_msg resp =
     (case bind_exc (resp_json resp)
             (\<lambda>body. bind_exc (py_get body ''error'' (PDict []))
                (\<lambda>error_details.
                   py_get error_details ''message'' (PStr (''Status '' @ int_str (status_code resp))))) of
        Inr error_msg \<Rightarrow> py_str error_msg
      | Inl _ \<Rightarrow> ''Status '' @ int_str (status_code resp) @ '', Body: '' @ take 200 (resp_text resp))"

text \<open>Lines 138 to 144: the handlers of the other exceptions.\<close>

definition handle_exc :: "py_exc \<Rightarrow> fetch_result" where
  "handle_exc e =
     (case exc_class e of
        RequestException \<Rightarrow> FetchError (''Network or API request error: '' @ exc_text e)
      | OtherException \<Rightarrow> FetchError (''An unexpected error occurred: '' @ exc_text e))"

text \<open>\<^verbatim>\<open>raise_for_status\<close> raises \<^verbatim>\<open>HTTPError\<close> for a status from 400 to 599.\<close>

definition raises_for_status :: "response \<Rightarrow> bool" where
  "raises_for_status resp = (400 \<le> status_code resp \<and> status_code resp < 600)"

definition request_params :: "'dt platform \<Rightarrow> string \<Rightarrow> int \<Rightarrow> int \<Rightarrow> pydict" where
  "request_params pf search_term page articles_per_page =
     [(''api_token'', PStr (api_key pf)),
      (''search'', PStr search_term),
      (''language'', PStr ''en''),
      (''limit'', PInt articles_per_page),
      (''page'', PInt page),
      (''sort'', PStr ''published_on'')]"

definition fetch_marketaux_news :: "'dt platform \<Rightarrow> string \<Rightarrow> int \<Rightarrow> int \<Rightarrow> fetch_result" where
  "fetch_marketaux_news pf query page articles_per_page =
     (if api_key pf = [] then FetchError ''Server configuration error: Missing MarketAux API Key.''
      else
        (let search_term = strip query in
         case requests_get pf (request_params pf search_term page articles_per_page) of
           Inl e \<Rightarrow> handle_exc e
         | Inr resp \<Rightarrow>
             if raises_for_status resp
             then FetchError (''HTTP error connecting to MarketAux: '' @ http_error_msg resp)
             else (case read_body pf resp of Inl e \<Rightarrow> handle_exc e | Inr r \<Rightarrow> r)))"

section \<open>ContentAnalyzer: \<^verbatim>\<open>analyze_content\<close>\<close>

text \<open>
  The module globals set by the loading block, and the inference backends behind them.
  \<open>tok_encode t n\<close> is \<^verbatim>\<open>tokenizer(t, max_length=n, truncation=True, ...)["input_ids"][0]\<close>,
  \<open>tok_decode\<close> is \<^verbatim>\<open>tokenizer.decode(ids, skip_special_tokens=True)\<close>; the summarizer is
  called with the text, \<^verbatim>\<open>max_length\<close> and \<^verbatim>\<open>min_length\<close>. Each call returns or raises.
\<close>

record tokenizer_t =
  tok_encode :: "string \<Rightarrow> nat \<Rightarrow> py_exc + nat list"
  tok_decode :: "nat list \<Rightarrow> py_exc + string"

record models =
  models_loaded :: bool
  tokenizer :: "tokenizer_t option"
  summarizer :: "(string \<Rightarrow> nat \<Rightarrow> nat \<Rightarrow> py_exc + pyval) option"
  sentiment_analyzer :: "(string \<Rightarrow> py_exc + pyval) option"

definition not_callable :: py_exc where
  "not_callable = PyExc OtherException ([CHR 0x27] @ ''NoneType'' @ [CHR 0x27] @ '' object is not callable'')"

text \<open>Lines 157 to 167: the body of the first \<^verbatim>\<open>try\<close>.\<close>

definition summarization_stage :: "models \<Rightarrow> string \<Rightarrow> py_exc + pyval" where
  "summarization_stage md txt =
     (case tokenizer md of
        None \<Rightarrow> Inl not_callable
      | Some tk \<Rightarrow>
          bind_exc (tok_encode tk txt 512)
            (\<lambda>input_ids.
               bind_exc (tok_decode tk input_ids)
                 (\<lambda>decoded_input.
                    case summarizer md of
                      None \<Rightarrow> Inl not_callable
                    | Some summarize \<Rightarrow>
                        bind_exc (summarize decoded_input 100 20)
                          (\<lambda>out. bind_exc (py_first out)
                             (\<lambda>summary_result. py_subscript summary_result ''summary_text'')))))"

text \<open>Lines 173 and 174: the body of the second \<^verbatim>\<open>try\<close>.\<close>

definition sentiment_stage :: "models \<Rightarrow> string \<Rightarrow> py_exc + pyval" where
  "sentiment_stage md txt =
     (case sentiment_analyzer md of
        None \<Rightarrow> Inl not_callable
      | Some classify \<Rightarrow>
          bind_exc (classify (take 512 txt))
            (\<lambda>out. bind_exc (py_first out)
               (\<lambda>sentiment_result. py_subscript sentiment_result ''label'')))"

definition models_unavailable :: "models \<Rightarrow> bool" where
  "models_unavailable md =
     (\<not> models_loaded md \<or> summarizer md = None \<or> sentiment_analyzer md = None)"

text \<open>
  The second guard, \<^verbatim>\<open>not text or not isinstance(text, str)\<close>, lets through
  exactly the non-empty strings.
\<close>

definition analyze_content :: "models \<Rightarrow> pyval \<Rightarrow> pydict" where
  "analyze_content md content =
     (if models_unavailable md then [(''error'', PStr ''ML models not available.'')]
      else
        (case content of
           PStr txt \<Rightarrow>
             if txt = [] then
               [(''summary'', PStr ''No content provided for analysis.''), (''sentiment'', PStr ''N/A'')]
             else
               [(''summary'',
                   (case summarization_stage md txt of
                      Inr summary_text \<Rightarrow> summary_text
                    | Inl e \<Rightarrow> PStr ''Error generating summary.'')),
                (''sentiment'',
                   (case sentiment_stage md txt of
                      Inr label \<Rightarrow> label
                    | Inl e \<Rightarrow> PStr ''Error analyzing sentiment.''))]
         | _ \<Rightarrow> [(''summary'', PStr ''No content provided for analysis.''), (''sentiment'', PStr ''N/A'')]))"

section \<open>AnalysisPipeline: the two routes\<close>

text \<open>
  A route returns what it hands to \<^verbatim>\<open>render_template_string\<close> (the template and the
  keyword arguments) together with the calls it made to the two helper functions, in
  order. The \<^verbatim>\<open>page\<close> parameter of a request is given as \<^verbatim>\<open>int\<close> reads it: missing,
  not an integer literal, or an integer.
\<close>

datatype page_arg = NoPage | BadPage | PageNum int

datatype event = FetchCall string int int | AnalyzeCall pyval

datatype template = HTML_INDEX_TEMPLATE | HTML_RESULTS_TEMPLATE

record rendering =
  page_template :: template
  page_vars :: pydict

text \<open>
  Lines 584 to 589 and 654 to 659: a missing page is 1, a page that is not an integer is 1
  (the default of \<^verbatim>\<open>args.get\<close>, the \<^verbatim>\<open>ValueError\<close> handler), a page below 1 is 1.
\<close>

definition current_page_of :: "page_arg \<Rightarrow> int" where
  "current_page_of page =
     (case page of
        NoPage \<Rightarrow> 1
      | BadPage \<Rightarrow> 1
      | PageNum n \<Rightarrow> if n < 1 then 1 else n)"

text \<open>
  Lines 615 to 622 and 690 to 698: the body of the loop over the fetched articles, and the
  loop; the two routes differ in the message for an article without content.
\<close>

definition process_article :: "models \<Rightarrow> string \<Rightarrow> pydict \<Rightarrow> pydict \<times> event list" where
  "process_article md no_content article =
     (let content_to_analyze = dict_get article ''content_for_analysis'' (PStr []) in
      if truthy content_to_analyze
      then (AList.update ''analysis'' (PDict (analyze_content md content_to_analyze)) article,
            [AnalyzeCall content_to_analyze])
      else (AList.update ''analysis'' (PDict [(''error'', PStr no_content)]) article, []))"

fun process_articles :: "models \<Rightarrow> string \<Rightarrow> pydict list \<Rightarrow> pydict list \<times> event list" where
  "process_articles md no_content [] = ([], [])"
| "process_articles md no_content (article # rest) =
     (let step = process_article md no_content article;
          processed = process_articles md no_content rest
      in (fst step # fst processed, snd step @ snd processed))"

definition HOME_QUERY :: string where
  "HOME_QUERY = ''market news OR finance OR economy''"

definition index_page :: "pydict list \<Rightarrow> pyval \<Rightarrow> int \<Rightarrow> int \<Rightarrow> rendering" where
  "index_page initial_articles initial_error current_page next_page =
     \<lparr>page_template = HTML_INDEX_TEMPLATE,
      page_vars =
        [(''initial_articles'', PList (map PDict initial_articles)),
         (''initial_error'', initial_error),
         (''marketaux_url'', PStr MARKETAUX_WEBSITE_URL),
         (''current_page'', PInt current_page),
         (''next_page'', PInt next_page)]\<rparr>"

definition home :: "'dt platform \<Rightarrow> models \<Rightarrow> page_arg \<Rightarrow> rendering \<times> event list" where
  "home pf md page =
     (let current_page = current_page_of page in
      if \<not> models_loaded md then
        (case fetch_marketaux_news pf HOME_QUERY current_page 5 of
           FetchError e \<Rightarrow>
             (index_page [] (PStr e) current_page (current_page + 1),
              [FetchCall HOME_QUERY current_page 5])
         | Articles as \<Rightarrow>
             (index_page
                (map (AList.update ''analysis'' (PDict [(''error'', PStr ''ML models not loaded.'')])) as)
                (PStr ''ML Models failed to load. Analysis functionality may be limited.'')
                current_page (current_page + 1),
              [FetchCall HOME_QUERY current_page 5]))
      else
        (case fetch_marketaux_news pf HOME_QUERY current_page 5 of
           FetchError e \<Rightarrow>
             (index_page [] (PStr e) current_page (current_page + 1),
              [FetchCall HOME_QUERY current_page 5])
         | Articles as \<Rightarrow>
             (let processed = process_articles md ''No content for analysis.'' as in
              (index_page (fst processed) PNone current_page (current_page + 1),
               FetchCall HOME_QUERY current_page 5 # snd processed))))"

definition search_error_page :: "string \<Rightarrow> rendering" where
  "search_error_page msg =
     \<lparr>page_template = HTML_INDEX_TEMPLATE,
      page_vars =
        [(''search_error'', PStr msg),
         (''marketaux_url'', PStr MARKETAUX_WEBSITE_URL),
         (''current_page'', PInt 1),
         (''next_page'', PInt 2)]\<rparr>"

definition analyze_news_route ::
  "'dt platform \<Rightarrow> models \<Rightarrow> string option \<Rightarrow> page_arg \<Rightarrow> rendering \<times> event list" where
  "analyze_news_route pf md topic page =
     (if \<not> models_loaded md
      then (search_error_page ''ML Models are not available. Check server logs.'', [])
      else
        (let current_page = current_page_of page in
         case topic of
           None \<Rightarrow> (search_error_page ''Please enter a news topic or ticker.'', [])
         | Some query_input \<Rightarrow>
             if query_input = [] then (search_error_page ''Please enter a news topic or ticker.'', [])
             else
               (case fetch_marketaux_news pf query_input current_page 10 of
                  FetchError e \<Rightarrow>
                    (\<lparr>page_template = HTML_RESULTS_TEMPLATE,
                      page_vars =
                        [(''topic'', PStr query_input),
                         (''error'', PStr e),
                         (''marketaux_url'', PStr MARKETAUX_WEBSITE_URL),
                         (''current_page'', PInt current_page),
                         (''next_page'', PInt (current_page + 1))]\<rparr>,
                     [FetchCall query_input current_page 10])
                | Articles as \<Rightarrow>
                    (let processed = process_articles md
                                  ''No description/snippet available from MarketAux for analysis.'' as
                     in (\<lparr>page_template = HTML_RESULTS_TEMPLATE,
                          page_vars =
                            [(''topic'', PStr query_input),
                             (''articles'', PList (map PDict (fst processed))),
                             (''marketaux_url'', PStr MARKETAUX_WEBSITE_URL),
                             (''current_page'', PInt current_page),
                             (''next_page'', PInt (current_page + 1))]\<rparr>,
                         FetchCall query_input current_page 10 # snd processed)))))"

section \<open>The analysis block of the templates\<close>

text \<open>
  Lines 335 to 351 of the index template and 515 to 533 of the results template. A name
  that is not defined (\<open>None\<close> here) is false and equal to no string. The results template
  has an \<^verbatim>\<open>else\<close> branch, the index template has none.
\<close>

datatype effect = PositiveEffect | NegativeEffect | NeutralEffect

datatype analysis_view =
    AnalysisShown "pyval option" effect
  | AnalysisErrorShown "pyval option"
  | CouldNotAnalyze
  | NothingShown
  | TemplateFails

definition market_effect :: "pyval option \<Rightarrow> effect" where
  "market_effect sentiment =
     (if sentiment = Some (PStr ''POSITIVE'') then PositiveEffect
      else if sentiment = Some (PStr ''NEGATIVE'') then NegativeEffect
      else NeutralEffect)"

definition otherwise_shown :: "template \<Rightarrow> analysis_view" where
  "otherwise_shown t = (case t of HTML_INDEX_TEMPLATE \<Rightarrow> NothingShown | HTML_RESULTS_TEMPLATE \<Rightarrow> CouldNotAnalyze)"

definition analysis_block :: "template \<Rightarrow> pydict \<Rightarrow> analysis_view" where
  "analysis_block t article =
     (case map_of article ''analysis'' of
        None \<Rightarrow> otherwise_shown t
      | Some (PDict analysis) \<Rightarrow>
          if analysis \<noteq> [] \<and> \<not> truthy (dict_get analysis ''error'' PNone)
          then AnalysisShown (map_of analysis ''summary'') (market_effect (map_of analysis ''sentiment''))
          else if analysis \<noteq> [] \<and> truthy (dict_get analysis ''error'' PNone)
          then AnalysisErrorShown (map_of analysis ''error'')
          else otherwise_shown t
      | Some v \<Rightarrow> if truthy v then TemplateFails else otherwise_shown t)"

section \<open>Example inputs\<close>

text \<open>
  An upstream that answers 429 with a structured error body; an upstream that answers 200
  with one record whose description is null; a record whose date is the empty string.
  The example date library knows one timestamp.
\<close>

definition example_fromisoformat :: "string \<Rightarrow> string option" where
  "example_fromisoformat s =
     (if s = ''2024-05-01T12:30:00+00:00'' then Some ''2024-05-01 12:30'' else None)"

definition example_strftime :: "string \<Rightarrow> string \<Rightarrow> string" where
  "example_strftime dt_obj fmt = dt_obj"

definition rate_limit_response :: response where
  "rate_limit_response =
     \<lparr>status_code = 429,
      resp_text = ''{\"error\":{\"code\":\"rate_limit\",\"message\":\"Too many requests\"}}'',
      resp_json = Inr (PDict [(''error'', PDict [(''code'', PStr ''rate_limit''),
                                                 (''message'', PStr ''Too many requests'')])])\<rparr>"

definition rate_limited :: "string platform" where
  "rate_limited =
     \<lparr>api_key = ''token'',
      requests_get = (\<lambda>params. Inr rate_limit_response),
      fromisoformat = example_fromisoformat,
      strftime = example_strftime\<rparr>"

definition fed_record :: pydict where
  "fed_record =
     [(''title'', PStr ''Rates''),
      (''url'', PStr ''https://example.com/fed''),
      (''source'', PStr ''example.com''),
      (''published_at'', PStr ''2024-05-01T12:30:00Z''),
      (''description'', PNone),
      (''snippet'', PStr ''Fed raises rates'')]"

definition fed_article :: pydict where
  "fed_article =
     [(''title'', PStr ''Rates''),
      (''link'', PStr ''https://example.com/fed''),
      (''source'', PStr ''example.com''),
      (''published_utc'', PStr ''2024-05-01 12:30''),
      (''content_for_analysis'', PStr ''Fed raises rates'')]"

definition bare_record :: pydict where
  "bare_record = [(''title'', PStr []), (''published_at'', PStr [])]"

definition bare_article :: pydict where
  "bare_article =
     [(''title'', PStr []),
      (''link'', PStr ''#''),
      (''source'', PStr ''Unknown Source''),
      (''published_utc'', PStr ''N/A''),
      (''content_for_analysis'', PStr [])]"

definition one_page :: "string platform" where
  "one_page =
     \<lparr>api_key = ''token'',
      requests_get =
        (\<lambda>params. Inr \<lparr>status_code = 200, resp_text = [],
                         resp_json = Inr (PDict [(''data'', PList [PDict fed_record, PDict bare_record])])\<rparr>),
      fromisoformat = example_fromisoformat,
      strftime = example_strftime\<rparr>"

text \<open>
  A record whose description and snippet are present and false; a record whose date is a
  number, and an upstream that sends it after a good record.
\<close>

definition falsy_record :: pydict where
  "falsy_record = [(''description'', PStr []), (''snippet'', PInt 0), (''title'', PStr ''Rates'')]"

definition falsy_article :: pydict where
  "falsy_article =
     [(''title'', PStr ''Rates''),
      (''link'', PStr ''#''),
      (''source'', PStr ''Unknown Source''),
      (''published_utc'', PStr ''N/A''),
      (''content_for_analysis'', PStr ''Rates'')]"

definition numeric_date_record :: pydict where
  "numeric_date_record = [(''title'', PStr ''Rates''), (''published_at'', PInt 1714566600)]"

definition numeric_date_page :: "string platform" where
  "numeric_date_page =
     \<lparr>api_key = ''token'',
      requests_get =
        (\<lambda>params. Inr \<lparr>status_code = 200, resp_text = [],
                         resp_json = Inr (PDict [(''data'', PList [PDict fed_record, PDict numeric_date_record])])\<rparr>),
      fromisoformat = example_fromisoformat,
      strftime = example_strftime\<rparr>"

text \<open>
  Models that failed to load; models that work; models whose summarizer raises; models
  whose two backends both raise.
\<close>

definition models_down :: models where
  "models_down =
     \<lparr>models_loaded = False, tokenizer = None, summarizer = None, sentiment_analyzer = None\<rparr>"

definition example_tokenizer :: tokenizer_t where
  "example_tokenizer =
     \<lparr>tok_encode = (\<lambda>t n. Inr (take n (map of_char t))),
      tok_decode = (\<lambda>ids. Inr (map char_of ids))\<rparr>"

definition models_up :: models where
  "models_up =
     \<lparr>models_loaded = True,
      tokenizer = Some example_tokenizer,
      summarizer = Some (\<lambda>t hi lo. Inr (PList [PDict [(''summary_text'', PStr (take hi t))]])),
      sentiment_analyzer = Some (\<lambda>t. Inr (PList [PDict [(''label'', PStr ''NEGATIVE''), (''score'', PFloat (PyFloat True ''0.98''))]]))\<rparr>"

definition summarizer_raises :: models where
  "summarizer_raises =
     models_up\<lparr>summarizer := Some (\<lambda>t hi lo. Inl (PyExc OtherException ''out of memory''))\<rparr>"

definition sentiment_raises :: models where
  "sentiment_raises =
     models_up\<lparr>sentiment_analyzer := Some (\<lambda>t. Inl (PyExc OtherException ''out of memory''))\<rparr>"

definition both_raise :: models where
  "both_raise =
     summarizer_raises\<lparr>sentiment_analyzer := Some (\<lambda>t. Inl (PyExc OtherException ''out of memory''))\<rparr>"

section \<open>Properties\<close>

subsection \<open>Evaluation on the example inputs\<close>

lemmas py_defs = bind_exc_def py_get_def dict_get_def py_or_def py_in_def py_subscript_def py_first_def

lemmas example_defs = fed_record_def bare_record_def fed_article_def bare_article_def
  example_fromisoformat_def example_strftime_def replace_Z_def

lemma fetch_one_page: "fetch_marketaux_news one_page q p n = Articles [fed_article, bare_article]"
  by (simp add: fetch_marketaux_news_def one_page_def raises_for_status_def read_body_def
      has_list_data_def normalize_article_def published_display_def
      choose_content_def coerce_content_def py_defs example_defs)

lemma normalize_fed: "normalize_article one_page (PDict fed_record) = Inr fed_article"
  by (simp add: one_page_def normalize_article_def published_display_def
      choose_content_def coerce_content_def py_defs example_defs)

lemma normalize_bare: "normalize_article one_page (PDict bare_record) = Inr bare_article"
  by (simp add: one_page_def normalize_article_def published_display_def
      choose_content_def coerce_content_def py_defs example_defs)

lemma normalize_falsy: "normalize_article one_page (PDict falsy_record) = Inr falsy_article"
  by (simp add: one_page_def normalize_article_def published_display_def falsy_record_def
      falsy_article_def choose_content_def coerce_content_def py_defs)

lemma normalize_number:
  "normalize_article one_page (PDict [(''description'', PInt 42)]) =
     Inr [(''title'', PStr ''No Title''), (''link'', PStr ''#''), (''source'', PStr ''Unknown Source''),
          (''published_utc'', PStr ''N/A''), (''content_for_analysis'', PStr ''42'')]"
  by (simp add: one_page_def normalize_article_def published_display_def choose_content_def
      coerce_content_def py_defs py_str_def int_str_def nat_str.simps digit_char_def)

subsection \<open>The error message for a refused request\<close>

text \<open>
  Claim C1. For a status that \<^verbatim>\<open>raise_for_status\<close> refuses and a body that parses as a
  structured error, the claim expects the error message to hold both the machine code
  and the human message. The handler of \<^verbatim>\<open>HTTPError\<close> reads the message only: for the
  429 response with code \<^verbatim>\<open>rate_limit\<close> and message \<^verbatim>\<open>Too many requests\<close> the result holds
  the message and not the code. (The branch for an error body under an accepted status,
  \<open>api_error_result\<close>, does insert both.)
\<close>

theorem C1_rate_limit_code_dropped:
  "fetch_marketaux_news rate_limited ''AAPL'' 1 10
     = FetchError ''HTTP error connecting to MarketAux: Too many requests''
   \<and> contains_str ''HTTP error connecting to MarketAux: Too many requests'' ''Too many requests''
   \<and> \<not> contains_str ''HTTP error connecting to MarketAux: Too many requests'' ''rate_limit''"
  by (simp add: fetch_marketaux_news_def rate_limited_def rate_limit_response_def
      raises_for_status_def http_error_msg_def py_defs py_str_def starts_with_def)

text \<open>The same body under an accepted status: the sibling branch keeps the code.\<close>

lemma api_error_keeps_code:
  "read_body pf (rate_limit_response\<lparr>status_code := 200\<rparr>)
     = Inr (FetchError ''MarketAux News API Error (rate_limit): Too many requests'')"
  by (simp add: read_body_def rate_limit_response_def has_list_data_def has_dict_error_def
      api_error_result_def py_defs py_str_def)

text \<open>The other half of the claim holds: the fallback names the status and at most 200 characters of the body.\<close>

lemma http_error_msg_unparseable:
  "resp_json resp = Inl e \<Longrightarrow>
   http_error_msg resp = ''Status '' @ int_str (status_code resp) @ '', Body: '' @ take 200 (resp_text resp)"
  by (simp add: http_error_msg_def bind_exc_def)

lemma http_error_msg_unparseable_length:
  "resp_json resp = Inl e \<Longrightarrow>
   length (http_error_msg resp) \<le> length (''Status '' @ int_str (status_code resp) @ '', Body: '') + 200"
  by (simp add: http_error_msg_unparseable)

subsection \<open>The text chosen for analysis\<close>

lemma content_of_normalized:
  "normalize_article pf (PDict d) = Inr a \<Longrightarrow>
   dict_get a ''content_for_analysis'' PNone = coerce_content (choose_content d)"
  by (auto simp: normalize_article_def bind_exc_def dict_get_def split: sum.splits)

lemma coerce_content_is_str: "is_str (coerce_content v)"
  by (cases v) (simp_all add: coerce_content_def)

text \<open>
  Claim C5. For every raw record from which an article is built, the analyzable text
  (\<^verbatim>\<open>content_for_analysis\<close>) is the first of description, snippet, title that is true
  (title, or the empty string when there is no title, if neither is), turned into a string
  by \<^verbatim>\<open>str\<close> when it is not one and into the empty string when it is \<^verbatim>\<open>None\<close>; it is always
  a string; and a record with a null description and the snippet \<^verbatim>\<open>Fed raises rates\<close> gets
  that snippet.
\<close>

theorem C5_analyzable_text:
  assumes "normalize_article pf (PDict d) = Inr a"
  shows "(let description = dict_get d ''description'' PNone;
              snippet = dict_get d ''snippet'' PNone;
              title = dict_get d ''title'' (PStr []);
              chosen = (if truthy description then description
                        else if truthy snippet then snippet else title);
              content = dict_get a ''content_for_analysis'' PNone
          in content = (if chosen = PNone then PStr [] else PStr (py_str chosen))
             \<and> is_str content
             \<and> (description = PNone \<and> snippet = PStr ''Fed raises rates''
                  \<longrightarrow> content = PStr ''Fed raises rates''))"
proof -
  have c: "dict_get a ''content_for_analysis'' PNone = coerce_content (choose_content d)"
    using assms by (rule content_of_normalized)
  show ?thesis
    unfolding c Let_def
    by (cases "dict_get d ''description'' PNone"; cases "dict_get d ''snippet'' PNone";
        cases "dict_get d ''title'' (PStr [])")
       (simp_all add: choose_content_def coerce_content_def py_or_def py_str_def)
qed

theorem C5_analyzable_text_witness:
  "normalize_article one_page (PDict fed_record) = Inr fed_article
   \<and> dict_get fed_record ''description'' PNone = PNone
   \<and> dict_get fed_record ''snippet'' PNone = PStr ''Fed raises rates''
   \<and> dict_get fed_article ''content_for_analysis'' PNone = PStr ''Fed raises rates''
   \<and> is_str (dict_get fed_article ''content_for_analysis'' PNone)
   \<and> dict_get [(''title'', PStr ''No Title''), (''link'', PStr ''#''), (''source'', PStr ''Unknown Source''),
          (''published_utc'', PStr ''N/A''), (''content_for_analysis'', PStr ''42'')]
         ''content_for_analysis'' PNone = PStr (py_str (PInt 42))"
  using C5_analyzable_text [OF normalize_fed] C5_analyzable_text [OF normalize_number] normalize_fed
  by (simp add: Let_def dict_get_def fed_record_def fed_article_def)

lemma dict_get_delete_other: "k' \<noteq> k \<Longrightarrow> dict_get (AList.delete k d) k' x = dict_get d k' x"
  by (simp add: dict_get_def)

lemma dict_get_delete_same: "dict_get (AList.delete k d) k x = x"
  by (simp add: dict_get_def AList.delete_conv')

lemma dict_get_falsy_None: "map_of d k = Some v \<Longrightarrow> \<not> truthy v \<Longrightarrow> \<not> truthy (dict_get d k PNone)"
  by (simp add: dict_get_def)

lemma choose_content_delete_description:
  "\<not> truthy (dict_get d ''description'' PNone) \<Longrightarrow>
   choose_content (AList.delete ''description'' d) = choose_content d"
  by (simp add: choose_content_def py_or_def dict_get_delete_other dict_get_delete_same)

lemma choose_content_delete_snippet:
  "\<not> truthy (dict_get d ''snippet'' PNone) \<Longrightarrow>
   choose_content (AList.delete ''snippet'' d) = choose_content d"
  by (simp add: choose_content_def py_or_def dict_get_delete_other dict_get_delete_same)

lemma coerce_content_eq: "coerce_content v = (if v = PNone then PStr [] else PStr (py_str v))"
  by (cases v) (simp_all add: coerce_content_def py_str_def)

lemma truthy_not_None: "truthy v \<Longrightarrow> v \<noteq> PNone"
  by (cases v) simp_all

text \<open>
  Claim C10. The priority is decided by truth value, not by presence. In the article
  built from a record, a description that is present and true is the analyzable text
  (as \<^verbatim>\<open>str\<close> gives it); a description that is present but false (the empty string, 0,
  \<^verbatim>\<open>False\<close>, null) is treated exactly as an absent one: the text is then the snippet if that
  is true, and otherwise the title (the empty string when there is none); likewise a
  snippet that is present but false falls through to the title. The record with the false
  description (or snippet) removed is normalized to the same result.
\<close>

theorem C10_truthiness_decides:
  "(map_of d ''description'' = Some v \<and> \<not> truthy v \<longrightarrow>
      normalize_article pf (PDict (AList.delete ''description'' d)) = normalize_article pf (PDict d))
   \<and> (map_of d ''snippet'' = Some v \<and> \<not> truthy v \<longrightarrow>
      normalize_article pf (PDict (AList.delete ''snippet'' d)) = normalize_article pf (PDict d))
   \<and> (\<not> truthy (dict_get d ''description'' PNone) \<longrightarrow>
      choose_content d = (if truthy (dict_get d ''snippet'' PNone) then dict_get d ''snippet'' PNone
                          else dict_get d ''title'' (PStr [])))
   \<and> (normalize_article pf (PDict d) = Inr a \<longrightarrow>
        (let content = dict_get a ''content_for_analysis'' PNone;
             title = dict_get d ''title'' (PStr []);
             title_text = (if title = PNone then PStr [] else PStr (py_str title))
         in (map_of d ''description'' = Some v \<and> truthy v \<longrightarrow> content = PStr (py_str v))
          \<and> (\<not> truthy (dict_get d ''description'' PNone) \<and> map_of d ''snippet'' = Some w \<and> truthy w \<longrightarrow>
                content = PStr (py_str w))
          \<and> (\<not> truthy (dict_get d ''description'' PNone) \<and> \<not> truthy (dict_get d ''snippet'' PNone) \<longrightarrow>
                content = title_text)
          \<and> (map_of d ''description'' = Some v \<and> \<not> truthy v \<longrightarrow>
                content = (if truthy (dict_get d ''snippet'' PNone)
                           then PStr (py_str (dict_get d ''snippet'' PNone)) else title_text))
          \<and> (map_of d ''description'' = None \<longrightarrow>
                content = (if truthy (dict_get d ''snippet'' PNone)
                           then PStr (py_str (dict_get d ''snippet'' PNone)) else title_text))))"
proof (intro conjI impI)
  assume "map_of d ''description'' = Some v \<and> \<not> truthy v"
  then have "\<not> truthy (dict_get d ''description'' PNone)"
    by (simp add: dict_get_falsy_None)
  then show "normalize_article pf (PDict (AList.delete ''description'' d)) = normalize_article pf (PDict d)"
    by (simp add: normalize_article_def choose_content_delete_description dict_get_delete_other)
next
  assume "map_of d ''snippet'' = Some v \<and> \<not> truthy v"
  then have "\<not> truthy (dict_get d ''snippet'' PNone)"
    by (simp add: dict_get_falsy_None)
  then show "normalize_article pf (PDict (AList.delete ''snippet'' d)) = normalize_article pf (PDict d)"
    by (simp add: normalize_article_def choose_content_delete_snippet dict_get_delete_other)
next
  assume "\<not> truthy (dict_get d ''description'' PNone)"
  then show "choose_content d = (if truthy (dict_get d ''snippet'' PNone) then dict_get d ''snippet'' PNone
                          else dict_get d ''title'' (PStr []))"
    by (simp add: choose_content_def py_or_def)
next
  assume "normalize_article pf (PDict d) = Inr a"
  then have c: "dict_get a ''content_for_analysis'' PNone = coerce_content (choose_content d)"
    by (rule content_of_normalized)
  show "let content = dict_get a ''content_for_analysis'' PNone;
             title = dict_get d ''title'' (PStr []);
             title_text = (if title = PNone then PStr [] else PStr (py_str title))
         in (map_of d ''description'' = Some v \<and> truthy v \<longrightarrow> content = PStr (py_str v))
          \<and> (\<not> truthy (dict_get d ''description'' PNone) \<and> map_of d ''snippet'' = Some w \<and> truthy w \<longrightarrow>
                content = PStr (py_str w))
          \<and> (\<not> truthy (dict_get d ''description'' PNone) \<and> \<not> truthy (dict_get d ''snippet'' PNone) \<longrightarrow>
                content = title_text)
          \<and> (map_of d ''description'' = Some v \<and> \<not> truthy v \<longrightarrow>
                content = (if truthy (dict_get d ''snippet'' PNone)
                           then PStr (py_str (dict_get d ''snippet'' PNone)) else title_text))
          \<and> (map_of d ''description'' = None \<longrightarrow>
                content = (if truthy (dict_get d ''snippet'' PNone)
                           then PStr (py_str (dict_get d ''snippet'' PNone)) else title_text))"
    unfolding c Let_def coerce_content_eq choose_content_def py_or_def
    by (auto simp add: dict_get_def dest: truthy_not_None)
qed

theorem C10_truthiness_decides_witness:
  "\<not> truthy (PStr []) \<and> \<not> truthy (PInt 0) \<and> \<not> truthy (PBool False)
   \<and> normalize_article one_page (PDict falsy_record) = Inr falsy_article
   \<and> map_of falsy_record ''description'' = Some (PStr [])
   \<and> map_of falsy_record ''snippet'' = Some (PInt 0)
   \<and> dict_get falsy_article ''content_for_analysis'' PNone = PStr ''Rates''
   \<and> normalize_article one_page (PDict (AList.delete ''description'' falsy_record)) = Inr falsy_article
   \<and> normalize_article one_page (PDict (AList.delete ''snippet'' falsy_record)) = Inr falsy_article
   \<and> dict_get [(''title'', PStr ''No Title''), (''link'', PStr ''#''), (''source'', PStr ''Unknown Source''),
          (''published_utc'', PStr ''N/A''), (''content_for_analysis'', PStr ''42'')]
         ''content_for_analysis'' PNone = PStr (py_str (PInt 42))"
proof -
  have m: "map_of falsy_record ''description'' = Some (PStr [])"
    "map_of falsy_record ''snippet'' = Some (PInt 0)"
    "dict_get falsy_record ''description'' PNone = PStr []"
    "dict_get falsy_record ''snippet'' PNone = PInt 0"
    "dict_get falsy_record ''title'' (PStr []) = PStr ''Rates''"
    by (simp_all add: falsy_record_def dict_get_def)
  have n: "map_of [(''description'', PInt 42)] ''description'' = Some (PInt 42)"
    by simp
  show ?thesis
    using C10_truthiness_decides [where d = falsy_record and v = "PStr []" and pf = one_page
        and a = falsy_article]
      C10_truthiness_decides [where d = falsy_record and v = "PInt 0" and pf = one_page
        and a = falsy_article]
      C10_truthiness_decides [where d = "[(''description'', PInt 42)]" and v = "PInt 42" and pf = one_page
        and a = "[(''title'', PStr ''No Title''), (''link'', PStr ''#''), (''source'', PStr ''Unknown Source''),
          (''published_utc'', PStr ''N/A''), (''content_for_analysis'', PStr ''42'')]"]
      normalize_number n
    by (simp add: m normalize_falsy Let_def py_str_def)
qed

subsection \<open>The displayed publication date\<close>

lemma published_display_falsy:
  "\<not> truthy p \<Longrightarrow> published_display pf p = Inr (PStr ''N/A'')"
  by (simp add: published_display_def)

lemma published_display_unparsable:
  "s \<noteq> [] \<Longrightarrow> fromisoformat pf (replace_Z s) = None \<Longrightarrow> published_display pf (PStr s) = Inr (PStr s)"
  by (simp add: published_display_def)

lemma published_display_parsed:
  "s \<noteq> [] \<Longrightarrow> fromisoformat pf (replace_Z s) = Some dt \<Longrightarrow>
   published_display pf (PStr s) = Inr (PStr (strftime pf dt ''%Y-%m-%d %H:%M''))"
  by (simp add: published_display_def)

lemma published_display_total:
  "\<not> truthy p \<or> is_str p \<Longrightarrow> \<exists>v. published_display pf p = Inr v"
  by (cases p) (auto simp: published_display_def split: option.splits)

lemma normalize_article_published:
  "published_display pf (dict_get d ''published_at'' PNone) = Inr v \<Longrightarrow>
   \<exists>a. normalize_article pf (PDict d) = Inr a \<and> dict_get a ''published_utc'' PNone = v"
  by (simp add: normalize_article_def bind_exc_def dict_get_def)

lemma normalize_all_list_all2:
  "(normalize_all pf rs = Inr as) = list_all2 (\<lambda>r a. normalize_article pf r = Inr a) rs as"
proof (induction rs arbitrary: as)
  case Nil
  then show ?case by auto
next
  case (Cons r rs)
  show ?case
  proof (cases "normalize_article pf r")
    case (Inl e)
    then show ?thesis by (auto simp: bind_exc_def list_all2_Cons1)
  next
    case (Inr a)
    then show ?thesis
      using Cons.IH by (cases "normalize_all pf rs") (auto simp: bind_exc_def list_all2_Cons1)
  qed
qed

lemma normalize_all_total:
  "\<forall>r\<in>set rs. \<exists>a. normalize_article pf r = Inr a \<Longrightarrow> \<exists>as. normalize_all pf rs = Inr as"
  by (induction rs) (auto simp: bind_exc_def)

text \<open>
  The claim C6 as stated fails for a date that is present and empty: the empty string is
  no ISO date, yet the displayed date is \<^verbatim>\<open>N/A\<close> and not the raw (empty) string, because
  the guard \<^verbatim>\<open>if published_at:\<close> tests the truth value.
\<close>

theorem C6_counterexample:
  "dict_get bare_record ''published_at'' PNone = PStr []
   \<and> fromisoformat one_page (replace_Z []) = None
   \<and> normalize_article one_page (PDict bare_record) = Inr bare_article
   \<and> dict_get bare_article ''published_utc'' PNone = PStr ''N/A''
   \<and> PStr ''N/A'' \<noteq> PStr []"
  using normalize_bare
  by (simp add: dict_get_def bare_record_def bare_article_def one_page_def
      replace_Z_def example_fromisoformat_def)

text \<open>
  A date that is true and not a string is outside the amended claim below: there
  \<^verbatim>\<open>published_at.replace\<close> raises \<^verbatim>\<open>AttributeError\<close>, which the handler of \<^verbatim>\<open>ValueError\<close> does
  not catch, and the whole fetch returns an error. The fallback to the raw value is missed
  for such a record, and the records beside it are lost with it.
\<close>

lemma numeric_date_aborts_batch:
  "normalize_all pf [PDict fed_record, PDict numeric_date_record]
     = Inl (PyExc OtherException ([CHR 0x27] @ ''int'' @ [CHR 0x27] @ '' object has no attribute ''
                                   @ [CHR 0x27] @ ''replace'' @ [CHR 0x27]))"
  by (simp add: normalize_article_def published_display_def numeric_date_record_def fed_record_def
      attribute_error_def py_defs split: option.splits)

lemma numeric_date_aborts_fetch:
  "fetch_marketaux_news numeric_date_page q p n
     = FetchError (''An unexpected error occurred: '' @ [CHR 0x27] @ ''int'' @ [CHR 0x27]
                   @ '' object has no attribute '' @ [CHR 0x27] @ ''replace'' @ [CHR 0x27])"
  by (simp add: fetch_marketaux_news_def numeric_date_page_def raises_for_status_def read_body_def
      has_list_data_def handle_exc_def normalize_article_def published_display_def
      numeric_date_record_def attribute_error_def py_defs example_defs)

lemma normalize_all_insert:
  "normalize_article pf r = Inr a \<Longrightarrow>
   normalize_all pf (rs1 @ r # rs2) =
     bind_exc (normalize_all pf (rs1 @ rs2))
       (\<lambda>as. Inr (take (length rs1) as @ a # drop (length rs1) as))"
proof (induction rs1)
  case Nil
  then show ?case by (simp add: bind_exc_def split: sum.splits)
next
  case (Cons x rs1)
  then show ?case
    by (cases "normalize_article pf x"; cases "normalize_all pf (rs1 @ rs2)")
       (simp_all add: bind_exc_def)
qed

lemma normalize_article_published_alone:
  assumes "published_display pf (dict_get d ''published_at'' PNone) = Inr v"
  shows "\<exists>a. normalize_article pf (PDict d) = Inr a \<and> dict_get a ''published_utc'' PNone = v
           \<and> (\<forall>rs1 rs2. normalize_all pf (rs1 @ PDict d # rs2) =
                  bind_exc (normalize_all pf (rs1 @ rs2))
                    (\<lambda>as. Inr (take (length rs1) as @ a # drop (length rs1) as)))"
proof -
  from assms obtain a where a: "normalize_article pf (PDict d) = Inr a"
    "dict_get a ''published_utc'' PNone = v"
    using normalize_article_published by blast
  from a(1) have "\<forall>rs1 rs2. normalize_all pf (rs1 @ PDict d # rs2) =
                  bind_exc (normalize_all pf (rs1 @ rs2))
                    (\<lambda>as. Inr (take (length rs1) as @ a # drop (length rs1) as))"
    by (simp add: normalize_all_insert)
  with a show ?thesis by blast
qed

lemma normalize_fed_bare: "normalize_all one_page [PDict fed_record, PDict bare_record] = Inr [fed_article, bare_article]"
  by (simp add: bind_exc_def normalize_fed normalize_bare)

text \<open>
  Claim C6, amended. For every record: if \<^verbatim>\<open>published_at\<close> is absent, null or otherwise
  false (the empty string included), the displayed date is \<^verbatim>\<open>N/A\<close>; if it is a non-empty
  string that \<^verbatim>\<open>fromisoformat\<close> refuses (after replacing every Z by +00:00), the displayed
  date is the raw string; if it parses, the displayed date is its \<^verbatim>\<open>%Y-%m-%d %H:%M\<close>
  rendering. Such a record never affects the others of its batch, whatever they are: with
  the record in any place of the batch, the batch is normalized exactly as without it
  (the same articles around the record's own, or the same failure). A batch is normalized
  if and only if each of its records is, to those very articles.
\<close>

theorem C6_published_display:
  "(\<not> truthy (dict_get d ''published_at'' PNone) \<longrightarrow>
      (\<exists>a. normalize_article pf (PDict d) = Inr a \<and> dict_get a ''published_utc'' PNone = PStr ''N/A''
           \<and> (\<forall>rs1 rs2. normalize_all pf (rs1 @ PDict d # rs2) =
                  bind_exc (normalize_all pf (rs1 @ rs2))
                    (\<lambda>as. Inr (take (length rs1) as @ a # drop (length rs1) as)))))
   \<and> (dict_get d ''published_at'' PNone = PStr s \<and> s \<noteq> [] \<and> fromisoformat pf (replace_Z s) = None \<longrightarrow>
      (\<exists>a. normalize_article pf (PDict d) = Inr a \<and> dict_get a ''published_utc'' PNone = PStr s
           \<and> (\<forall>rs1 rs2. normalize_all pf (rs1 @ PDict d # rs2) =
                  bind_exc (normalize_all pf (rs1 @ rs2))
                    (\<lambda>as. Inr (take (length rs1) as @ a # drop (length rs1) as)))))
   \<and> (dict_get d ''published_at'' PNone = PStr s \<and> s \<noteq> [] \<and> fromisoformat pf (replace_Z s) = Some dt \<longrightarrow>
      (\<exists>a. normalize_article pf (PDict d) = Inr a
           \<and> dict_get a ''published_utc'' PNone = PStr (strftime pf dt ''%Y-%m-%d %H:%M'')
           \<and> (\<forall>rs1 rs2. normalize_all pf (rs1 @ PDict d # rs2) =
                  bind_exc (normalize_all pf (rs1 @ rs2))
                    (\<lambda>as. Inr (take (length rs1) as @ a # drop (length rs1) as)))))
   \<and> ((normalize_all pf rs = Inr as) = list_all2 (\<lambda>r a. normalize_article pf r = Inr a) rs as)"
proof (intro conjI impI)
  assume "\<not> truthy (dict_get d ''published_at'' PNone)"
  then show "\<exists>a. normalize_article pf (PDict d) = Inr a \<and> dict_get a ''published_utc'' PNone = PStr ''N/A''
           \<and> (\<forall>rs1 rs2. normalize_all pf (rs1 @ PDict d # rs2) =
                  bind_exc (normalize_all pf (rs1 @ rs2))
                    (\<lambda>as. Inr (take (length rs1) as @ a # drop (length rs1) as)))"
    by (intro normalize_article_published_alone published_display_falsy)
next
  assume "dict_get d ''published_at'' PNone = PStr s \<and> s \<noteq> [] \<and> fromisoformat pf (replace_Z s) = None"
  then show "\<exists>a. normalize_article pf (PDict d) = Inr a \<and> dict_get a ''published_utc'' PNone = PStr s
           \<and> (\<forall>rs1 rs2. normalize_all pf (rs1 @ PDict d # rs2) =
                  bind_exc (normalize_all pf (rs1 @ rs2))
                    (\<lambda>as. Inr (take (length rs1) as @ a # drop (length rs1) as)))"
    by (intro normalize_article_published_alone) (simp add: published_display_unparsable)
next
  assume "dict_get d ''published_at'' PNone = PStr s \<and> s \<noteq> [] \<and> fromisoformat pf (replace_Z s) = Some dt"
  then show "\<exists>a. normalize_article pf (PDict d) = Inr a
           \<and> dict_get a ''published_utc'' PNone = PStr (strftime pf dt ''%Y-%m-%d %H:%M'')
           \<and> (\<forall>rs1 rs2. normalize_all pf (rs1 @ PDict d # rs2) =
                  bind_exc (normalize_all pf (rs1 @ rs2))
                    (\<lambda>as. Inr (take (length rs1) as @ a # drop (length rs1) as)))"
    by (intro normalize_article_published_alone) (simp add: published_display_parsed)
next
  show "(normalize_all pf rs = Inr as) = list_all2 (\<lambda>r a. normalize_article pf r = Inr a) rs as"
    by (rule normalize_all_list_all2)
qed

theorem C6_published_display_witness:
  "(\<exists>a. normalize_article one_page (PDict [(''published_at'', PStr ''yesterday'')]) = Inr a
        \<and> dict_get a ''published_utc'' PNone = PStr ''yesterday''
        \<and> normalize_all one_page
             [PDict fed_record, PDict [(''published_at'', PStr ''yesterday'')], PDict bare_record]
            = Inr [fed_article, a, bare_article]
        \<and> normalize_all one_page
             [PDict fed_record, PDict [(''published_at'', PStr ''yesterday'')], PDict numeric_date_record]
            = normalize_all one_page [PDict fed_record, PDict numeric_date_record])
   \<and> (\<exists>a. normalize_article one_page (PDict fed_record) = Inr a
        \<and> dict_get a ''published_utc'' PNone = PStr ''2024-05-01 12:30'')
   \<and> (\<exists>a. normalize_article one_page (PDict [(''title'', PStr ''Rates'')]) = Inr a
        \<and> dict_get a ''published_utc'' PNone = PStr ''N/A'')"
proof -
  have h2: "dict_get [(''published_at'', PStr ''yesterday'')] ''published_at'' PNone = PStr ''yesterday''
            \<and> ''yesterday'' \<noteq> [] \<and> fromisoformat one_page (replace_Z ''yesterday'') = None"
    by (simp add: dict_get_def one_page_def example_fromisoformat_def replace_Z_def)
  have h3: "dict_get fed_record ''published_at'' PNone = PStr ''2024-05-01T12:30:00Z''
            \<and> ''2024-05-01T12:30:00Z'' \<noteq> []
            \<and> fromisoformat one_page (replace_Z ''2024-05-01T12:30:00Z'') = Some ''2024-05-01 12:30''"
    by (simp add: dict_get_def fed_record_def one_page_def example_fromisoformat_def replace_Z_def)
  have h1: "\<not> truthy (dict_get [(''title'', PStr ''Rates'')] ''published_at'' PNone)"
    by (simp add: dict_get_def)
  have st: "strftime one_page ''2024-05-01 12:30'' ''%Y-%m-%d %H:%M'' = ''2024-05-01 12:30''"
    by (simp add: one_page_def example_strftime_def)
  have nd: "normalize_all one_page ([PDict fed_record] @ [PDict numeric_date_record])
              = Inl (PyExc OtherException ([CHR 0x27] @ ''int'' @ [CHR 0x27] @ '' object has no attribute ''
                                   @ [CHR 0x27] @ ''replace'' @ [CHR 0x27]))"
    by (simp only: append_Cons append_Nil numeric_date_aborts_batch)
  note ex2 = C6_published_display [where d = "[(''published_at'', PStr ''yesterday'')]" and pf = one_page
      and s = "''yesterday''", THEN conjunct2, THEN conjunct1, THEN mp, OF h2]
  then obtain a where a: "normalize_article one_page (PDict [(''published_at'', PStr ''yesterday'')]) = Inr a"
    "dict_get a ''published_utc'' PNone = PStr ''yesterday''"
    "\<forall>rs1 rs2. normalize_all one_page (rs1 @ PDict [(''published_at'', PStr ''yesterday'')] # rs2) =
        bind_exc (normalize_all one_page (rs1 @ rs2))
          (\<lambda>as. Inr (take (length rs1) as @ a # drop (length rs1) as))"
    by (elim exE conjE) (rule that)
  note i1 = a(3) [rule_format, of "[PDict fed_record]" "[PDict bare_record]"]
  have r1: "bind_exc (normalize_all one_page ([PDict fed_record] @ [PDict bare_record]))
              (\<lambda>as. Inr (take (length [PDict fed_record]) as @ a # drop (length [PDict fed_record]) as))
            = Inr [fed_article, a, bare_article]"
    by (simp add: normalize_fed normalize_bare bind_exc_def)
  from i1 r1 have "normalize_all one_page
             ([PDict fed_record] @ PDict [(''published_at'', PStr ''yesterday'')] # [PDict bare_record])
            = Inr [fed_article, a, bare_article]"
    by (rule trans)
  then have b1: "normalize_all one_page
             [PDict fed_record, PDict [(''published_at'', PStr ''yesterday'')], PDict bare_record]
            = Inr [fed_article, a, bare_article]"
    by (simp only: append_Cons append_Nil)
  note i2 = a(3) [rule_format, of "[PDict fed_record]" "[PDict numeric_date_record]"]
  have r2: "bind_exc (normalize_all one_page ([PDict fed_record] @ [PDict numeric_date_record]))
                (\<lambda>as. Inr (take (length [PDict fed_record]) as @ a # drop (length [PDict fed_record]) as))
          = normalize_all one_page ([PDict fed_record] @ [PDict numeric_date_record])"
    by (simp only: nd bind_exc_def sum.case)
  from i2 r2 have "normalize_all one_page
             ([PDict fed_record] @ PDict [(''published_at'', PStr ''yesterday'')] # [PDict numeric_date_record])
            = normalize_all one_page ([PDict fed_record] @ [PDict numeric_date_record])"
    by (rule trans)
  then have b2: "normalize_all one_page
             [PDict fed_record, PDict [(''published_at'', PStr ''yesterday'')], PDict numeric_date_record]
            = normalize_all one_page [PDict fed_record, PDict numeric_date_record]"
    by (simp only: append_Cons append_Nil)
  note ex3 = C6_published_display [where d = fed_record and pf = one_page
      and s = "''2024-05-01T12:30:00Z''" and dt = "''2024-05-01 12:30''",
      THEN conjunct2, THEN conjunct2, THEN conjunct1, THEN mp, OF h3]
  then obtain a3 where a3: "normalize_article one_page (PDict fed_record) = Inr a3"
    "dict_get a3 ''published_utc'' PNone = PStr (strftime one_page ''2024-05-01 12:30'' ''%Y-%m-%d %H:%M'')"
    by (elim exE conjE) (rule that)
  have c3: "\<exists>a. normalize_article one_page (PDict fed_record) = Inr a
        \<and> dict_get a ''published_utc'' PNone = PStr ''2024-05-01 12:30''"
  proof (intro exI conjI)
    show "normalize_article one_page (PDict fed_record) = Inr a3" by (fact a3(1))
    show "dict_get a3 ''published_utc'' PNone = PStr ''2024-05-01 12:30''"
      using a3(2) by (simp only: st)
  qed
  note ex1 = C6_published_display [where d = "[(''title'', PStr ''Rates'')]" and pf = one_page,
      THEN conjunct1, THEN mp, OF h1]
  then obtain a1 where a1: "normalize_article one_page (PDict [(''title'', PStr ''Rates'')]) = Inr a1"
    "dict_get a1 ''published_utc'' PNone = PStr ''N/A''"
    by (elim exE conjE) (rule that)
  have c1: "\<exists>a. normalize_article one_page (PDict [(''title'', PStr ''Rates'')]) = Inr a
        \<and> dict_get a ''published_utc'' PNone = PStr ''N/A''"
  proof (intro exI conjI)
    show "normalize_article one_page (PDict [(''title'', PStr ''Rates'')]) = Inr a1" by (fact a1(1))
    show "dict_get a1 ''published_utc'' PNone = PStr ''N/A''" by (fact a1(2))
  qed
  have c2: "\<exists>a. normalize_article one_page (PDict [(''published_at'', PStr ''yesterday'')]) = Inr a
        \<and> dict_get a ''published_utc'' PNone = PStr ''yesterday''
        \<and> normalize_all one_page
             [PDict fed_record, PDict [(''published_at'', PStr ''yesterday'')], PDict bare_record]
            = Inr [fed_article, a, bare_article]
        \<and> normalize_all one_page
             [PDict fed_record, PDict [(''published_at'', PStr ''yesterday'')], PDict numeric_date_record]
            = normalize_all one_page [PDict fed_record, PDict numeric_date_record]"
  proof (intro exI conjI)
    show "normalize_article one_page (PDict [(''published_at'', PStr ''yesterday'')]) = Inr a"
      by (fact a(1))
    show "dict_get a ''published_utc'' PNone = PStr ''yesterday''"
      by (fact a(2))
    show "normalize_all one_page
             [PDict fed_record, PDict [(''published_at'', PStr ''yesterday'')], PDict bare_record]
            = Inr [fed_article, a, bare_article]"
      by (fact b1)
    show "normalize_all one_page
             [PDict fed_record, PDict [(''published_at'', PStr ''yesterday'')], PDict numeric_date_record]
            = normalize_all one_page [PDict fed_record, PDict numeric_date_record]"
      by (fact b2)
  qed
  show ?thesis
    by (intro conjI c2 c3 c1)
qed

subsection \<open>The loop over the fetched articles\<close>

lemma process_articles_map:
  "process_articles md msg as =
     (map (\<lambda>a. fst (process_article md msg a)) as, concat (map (\<lambda>a. snd (process_article md msg a)) as))"
  by (induction as) (simp_all add: Let_def)

lemma process_article_no_content:
  "\<not> truthy (dict_get a ''content_for_analysis'' (PStr [])) \<Longrightarrow>
   process_article md msg a = (AList.update ''analysis'' (PDict [(''error'', PStr msg)]) a, [])"
  by (simp add: process_article_def)

lemma process_article_content:
  "truthy (dict_get a ''content_for_analysis'' (PStr [])) \<Longrightarrow>
   process_article md msg a =
     (AList.update ''analysis'' (PDict (analyze_content md (dict_get a ''content_for_analysis'' (PStr [])))) a,
      [AnalyzeCall (dict_get a ''content_for_analysis'' (PStr []))])"
  by (simp add: process_article_def Let_def)

lemma home_loaded:
  "models_loaded md \<Longrightarrow> fetch_marketaux_news pf HOME_QUERY (current_page_of page) 5 = Articles as \<Longrightarrow>
   home pf md page =
     (index_page (map (\<lambda>a. fst (process_article md ''No content for analysis.'' a)) as) PNone
        (current_page_of page) (current_page_of page + 1),
      FetchCall HOME_QUERY (current_page_of page) 5
        # concat (map (\<lambda>a. snd (process_article md ''No content for analysis.'' a)) as))"
  by (simp add: home_def Let_def process_articles_map)

lemma analyze_route_loaded:
  "models_loaded md \<Longrightarrow> q \<noteq> [] \<Longrightarrow>
   fetch_marketaux_news pf q (current_page_of page) 10 = Articles as \<Longrightarrow>
   analyze_news_route pf md (Some q) page =
     (\<lparr>page_template = HTML_RESULTS_TEMPLATE,
       page_vars =
         [(''topic'', PStr q),
          (''articles'', PList (map PDict
             (map (\<lambda>a. fst (process_article md ''No description/snippet available from MarketAux for analysis.'' a)) as))),
          (''marketaux_url'', PStr MARKETAUX_WEBSITE_URL),
          (''current_page'', PInt (current_page_of page)),
          (''next_page'', PInt (current_page_of page + 1))]\<rparr>,
      FetchCall q (current_page_of page) 10
        # concat (map (\<lambda>a. snd (process_article md ''No description/snippet available from MarketAux for analysis.'' a)) as))"
  by (simp add: analyze_news_route_def Let_def process_articles_map)

lemma analyze_content_unavailable:
  "\<not> models_loaded md \<Longrightarrow> analyze_content md c = [(''error'', PStr ''ML models not available.'')]"
  by (simp add: analyze_content_def models_unavailable_def)

text \<open>
  The claim C2 as stated fails on both routes. With the models not loaded, the home route
  attaches \<^verbatim>\<open>{"error": "ML models not loaded."}\<close> to every fetched article (it never calls
  \<open>analyze_content\<close>, whose own message is \<^verbatim>\<open>ML models not available.\<close>), and the topic route
  returns its page-level error before any fetch.
\<close>

theorem C2_counterexample:
  "\<not> models_loaded models_down
   \<and> fetch_marketaux_news one_page HOME_QUERY (current_page_of NoPage) 5 = Articles [fed_article, bare_article]
   \<and> dict_get (page_vars (fst (home one_page models_down NoPage))) ''initial_articles'' PNone =
       PList [PDict (fed_article @ [(''analysis'', PDict [(''error'', PStr ''ML models not loaded.'')])]),
              PDict (bare_article @ [(''analysis'', PDict [(''error'', PStr ''ML models not loaded.'')])])]
   \<and> PStr ''ML models not loaded.'' \<noteq> PStr ''ML models not available.''
   \<and> analyze_news_route one_page models_down (Some ''AAPL'') NoPage
       = (search_error_page ''ML Models are not available. Check server logs.'', [])"
  by (simp add: home_def analyze_news_route_def fetch_one_page Let_def models_down_def
        current_page_of_def index_page_def)
     (simp add: dict_get_def fed_article_def bare_article_def)

text \<open>
  Claim C2, amended. When \<^verbatim>\<open>models_loaded\<close> is false: a call of \<open>analyze_content\<close> returns
  the failure \<^verbatim>\<open>ML models not available.\<close>; the home route still performs the fetch, and when
  the fetch succeeds it hands on every fetched article with the failure
  \<^verbatim>\<open>ML models not loaded.\<close> attached, beside the page-level message that the models failed to
  load; the topic route performs no fetch and returns the page-level error
  \<^verbatim>\<open>ML Models are not available. Check server logs.\<close>
\<close>

theorem C2_models_not_loaded:
  assumes "\<not> models_loaded md"
  shows "analyze_content md c = [(''error'', PStr ''ML models not available.'')]
       \<and> (fetch_marketaux_news pf HOME_QUERY (current_page_of page) 5 = Articles as \<longrightarrow>
            home pf md page =
              (index_page
                 (map (AList.update ''analysis'' (PDict [(''error'', PStr ''ML models not loaded.'')])) as)
                 (PStr ''ML Models failed to load. Analysis functionality may be limited.'')
                 (current_page_of page) (current_page_of page + 1),
               [FetchCall HOME_QUERY (current_page_of page) 5]))
       \<and> (\<forall>a\<in>set (map (AList.update ''analysis'' (PDict [(''error'', PStr ''ML models not loaded.'')])) as).
             map_of a ''analysis'' = Some (PDict [(''error'', PStr ''ML models not loaded.'')]))
       \<and> analyze_news_route pf md topic page
           = (search_error_page ''ML Models are not available. Check server logs.'', [])"
  using assms
  by (auto simp add: analyze_content_unavailable home_def Let_def analyze_news_route_def
      AList.update_conv')

theorem C2_models_not_loaded_witness:
  "\<not> models_loaded models_down
   \<and> fetch_marketaux_news one_page HOME_QUERY (current_page_of (PageNum 3)) 5 = Articles [fed_article, bare_article]
   \<and> analyze_content models_down (PStr ''Fed raises rates'') = [(''error'', PStr ''ML models not available.'')]
   \<and> home one_page models_down (PageNum 3) =
        (index_page
           [fed_article @ [(''analysis'', PDict [(''error'', PStr ''ML models not loaded.'')])],
            bare_article @ [(''analysis'', PDict [(''error'', PStr ''ML models not loaded.'')])]]
           (PStr ''ML Models failed to load. Analysis functionality may be limited.'') 3 4,
         [FetchCall HOME_QUERY 3 5])
   \<and> analyze_news_route one_page models_down (Some ''AAPL'') (PageNum 3)
        = (search_error_page ''ML Models are not available. Check server logs.'', [])"
proof -
  have down: "\<not> models_loaded models_down" by (simp add: models_down_def)
  have ev: "AList.update ''analysis'' v bare_article = bare_article @ [(''analysis'', v)]"
    "AList.update ''analysis'' v fed_article = fed_article @ [(''analysis'', v)]" for v
    by (simp_all add: bare_article_def fed_article_def)
  show ?thesis
    using C2_models_not_loaded [OF down, where c = "PStr ''Fed raises rates''" and pf = one_page
        and page = "PageNum 3" and as = "[fed_article, bare_article]" and topic = "Some ''AAPL''"]
    by (simp add: down ev fetch_one_page current_page_of_def)
qed

text \<open>
  The claim C3 as stated fails when the models are not loaded: the home route then never
  calls \<open>analyze_content\<close>, also for an article with text, and an article without text gets
  the models-not-loaded failure rather than the no-content one.
\<close>

theorem C3_counterexample:
  "\<not> models_loaded models_down
   \<and> fetch_marketaux_news one_page HOME_QUERY (current_page_of NoPage) 5 = Articles [fed_article, bare_article]
   \<and> dict_get fed_article ''content_for_analysis'' (PStr []) = PStr ''Fed raises rates''
   \<and> snd (home one_page models_down NoPage) = [FetchCall HOME_QUERY 1 5]
   \<and> dict_get bare_article ''content_for_analysis'' (PStr []) = PStr []
   \<and> dict_get (page_vars (fst (home one_page models_down NoPage))) ''initial_articles'' PNone =
       PList [PDict (fed_article @ [(''analysis'', PDict [(''error'', PStr ''ML models not loaded.'')])]),
              PDict (bare_article @ [(''analysis'', PDict [(''error'', PStr ''ML models not loaded.'')])])]"
  by (simp add: home_def fetch_one_page Let_def models_down_def current_page_of_def index_page_def)
     (simp add: dict_get_def fed_article_def bare_article_def)

text \<open>
  Claim C3, amended. When the models are loaded: the loop body attaches the no-content
  failure to an article whose analyzable text is false (for a string: empty) and makes
  no call of \<open>analyze_content\<close>; for an article whose text is true it makes exactly one call,
  on that text, and attaches the result. On both routes the articles handed on are the
  fetched articles each treated so, in order, and the calls made after the fetch are
  exactly those of the articles, in order.
\<close>

theorem C3_calls_when_loaded:
  assumes "models_loaded md"
  shows "(\<not> truthy (dict_get a ''content_for_analysis'' (PStr [])) \<longrightarrow>
            process_article md msg a = (AList.update ''analysis'' (PDict [(''error'', PStr msg)]) a, []))
       \<and> (truthy (dict_get a ''content_for_analysis'' (PStr [])) \<longrightarrow>
            process_article md msg a =
              (AList.update ''analysis''
                 (PDict (analyze_content md (dict_get a ''content_for_analysis'' (PStr [])))) a,
               [AnalyzeCall (dict_get a ''content_for_analysis'' (PStr []))]))
       \<and> (fetch_marketaux_news pf HOME_QUERY (current_page_of page) 5 = Articles as \<longrightarrow>
            home pf md page =
              (index_page (map (\<lambda>a. fst (process_article md ''No content for analysis.'' a)) as) PNone
                 (current_page_of page) (current_page_of page + 1),
               FetchCall HOME_QUERY (current_page_of page) 5
                 # concat (map (\<lambda>a. snd (process_article md ''No content for analysis.'' a)) as)))
       \<and> (q \<noteq> [] \<and> fetch_marketaux_news pf q (current_page_of page) 10 = Articles as \<longrightarrow>
            (\<exists>r. analyze_news_route pf md (Some q) page =
              (r, FetchCall q (current_page_of page) 10
                 # concat (map (\<lambda>a. snd (process_article md
                      ''No description/snippet available from MarketAux for analysis.'' a)) as))
              \<and> dict_get (page_vars r) ''articles'' PNone =
                  PList (map PDict (map (\<lambda>a. fst (process_article md
                      ''No description/snippet available from MarketAux for analysis.'' a)) as))))"
  using assms
  by (simp add: process_article_no_content process_article_content home_loaded analyze_route_loaded
      dict_get_def)

theorem C3_calls_when_loaded_witness:
  "models_loaded models_up
   \<and> fetch_marketaux_news one_page HOME_QUERY (current_page_of NoPage) 5 = Articles [fed_article, bare_article]
   \<and> process_article models_up ''No content for analysis.'' bare_article
       = (bare_article @ [(''analysis'', PDict [(''error'', PStr ''No content for analysis.'')])], [])
   \<and> process_article models_up ''No content for analysis.'' fed_article
       = (fed_article @ [(''analysis'', PDict (analyze_content models_up (PStr ''Fed raises rates'')))],
          [AnalyzeCall (PStr ''Fed raises rates'')])
   \<and> snd (home one_page models_up NoPage) = [FetchCall HOME_QUERY 1 5, AnalyzeCall (PStr ''Fed raises rates'')]
   \<and> snd (analyze_news_route one_page models_up (Some ''AAPL'') NoPage)
       = [FetchCall ''AAPL'' 1 10, AnalyzeCall (PStr ''Fed raises rates'')]"
proof -
  have up: "models_loaded models_up" by (simp add: models_up_def)
  have ev: "dict_get bare_article ''content_for_analysis'' (PStr []) = PStr []"
    "dict_get fed_article ''content_for_analysis'' (PStr []) = PStr ''Fed raises rates''"
    "AList.update ''analysis'' v bare_article = bare_article @ [(''analysis'', v)]"
    "AList.update ''analysis'' v fed_article = fed_article @ [(''analysis'', v)]" for v
    by (simp_all add: dict_get_def bare_article_def fed_article_def)
  show ?thesis
    using C3_calls_when_loaded [OF up, where a = bare_article and msg = "''No content for analysis.''"
        and pf = one_page and page = NoPage and as = "[fed_article, bare_article]" and q = "''AAPL''"]
      C3_calls_when_loaded [OF up, where a = fed_article and msg = "''No content for analysis.''"
        and pf = one_page and page = NoPage and as = "[fed_article, bare_article]" and q = "''AAPL''"]
    by (auto simp add: up ev fetch_one_page current_page_of_def process_article_def Let_def)
qed

subsection \<open>The next page\<close>

lemma current_page_ge_1: "1 \<le> current_page_of page"
  by (cases page) (simp_all add: current_page_of_def)

lemma home_pages:
  "dict_get (page_vars (fst (home pf md page))) ''current_page'' PNone = PInt (current_page_of page)
   \<and> dict_get (page_vars (fst (home pf md page))) ''next_page'' PNone = PInt (current_page_of page + 1)"
  by (simp add: home_def Let_def index_page_def dict_get_def split: fetch_result.splits)

lemma analyze_route_pages:
  "models_loaded md \<Longrightarrow> q \<noteq> [] \<Longrightarrow>
   dict_get (page_vars (fst (analyze_news_route pf md (Some q) page))) ''current_page'' PNone
     = PInt (current_page_of page)
   \<and> dict_get (page_vars (fst (analyze_news_route pf md (Some q) page))) ''next_page'' PNone
     = PInt (current_page_of page + 1)"
  by (simp add: analyze_news_route_def Let_def dict_get_def split: fetch_result.splits)

lemma analyze_route_refused_pages:
  "\<not> models_loaded md \<or> topic = None \<or> topic = Some [] \<Longrightarrow>
   dict_get (page_vars (fst (analyze_news_route pf md topic page))) ''current_page'' PNone = PInt 1
   \<and> dict_get (page_vars (fst (analyze_news_route pf md topic page))) ''next_page'' PNone = PInt 2"
  by (auto simp add: analyze_news_route_def Let_def dict_get_def search_error_page_def)

text \<open>
  Claim C8. The home route hands on the clamped page and that page plus one, whatever the
  fetch returned; so does the topic route whenever it processes the request (models
  loaded, a topic given). A request the topic route refuses is answered with page 1 and
  next page 2. The clamped page is at least 1 and is the requested page when that is at
  least 1. No total of results is consulted.
\<close>

theorem C8_next_page:
  "dict_get (page_vars (fst (home pf md page))) ''current_page'' PNone = PInt (current_page_of page)
   \<and> dict_get (page_vars (fst (home pf md page))) ''next_page'' PNone = PInt (current_page_of page + 1)
   \<and> (models_loaded md \<and> q \<noteq> [] \<longrightarrow>
        dict_get (page_vars (fst (analyze_news_route pf md (Some q) page))) ''current_page'' PNone
          = PInt (current_page_of page)
        \<and> dict_get (page_vars (fst (analyze_news_route pf md (Some q) page))) ''next_page'' PNone
          = PInt (current_page_of page + 1))
   \<and> (\<not> (models_loaded md \<and> (\<exists>q. topic = Some q \<and> q \<noteq> [])) \<longrightarrow>
        dict_get (page_vars (fst (analyze_news_route pf md topic page))) ''current_page'' PNone = PInt 1
        \<and> dict_get (page_vars (fst (analyze_news_route pf md topic page))) ''next_page'' PNone = PInt 2)
   \<and> 1 \<le> current_page_of page
   \<and> (1 \<le> n \<longrightarrow> current_page_of (PageNum n) = n)"
proof (intro conjI impI)
  assume "\<not> (models_loaded md \<and> (\<exists>q. topic = Some q \<and> q \<noteq> []))"
  then have r: "\<not> models_loaded md \<or> topic = None \<or> topic = Some []"
    by (cases topic) auto
  show "dict_get (page_vars (fst (analyze_news_route pf md topic page))) ''current_page'' PNone = PInt 1"
    using analyze_route_refused_pages [OF r, where pf = pf and page = page] by simp
  show "dict_get (page_vars (fst (analyze_news_route pf md topic page))) ''next_page'' PNone = PInt 2"
    using analyze_route_refused_pages [OF r, where pf = pf and page = page] by simp
next
  show "1 \<le> current_page_of page" by (rule current_page_ge_1)
next
  assume "1 \<le> n"
  then show "current_page_of (PageNum n) = n" by (simp add: current_page_of_def)
qed (simp_all add: home_pages analyze_route_pages)

theorem C8_next_page_witness:
  "dict_get (page_vars (fst (home one_page models_up (PageNum 3)))) ''next_page'' PNone = PInt 4
   \<and> models_loaded models_up
   \<and> dict_get (page_vars (fst (analyze_news_route one_page models_up (Some ''AAPL'') (PageNum 3)))) ''next_page'' PNone = PInt 4
   \<and> dict_get (page_vars (fst (analyze_news_route one_page models_up None (PageNum 3)))) ''next_page'' PNone = PInt 2
   \<and> current_page_of (PageNum 3) = 3"
  using C8_next_page [where pf = one_page and md = models_up and page = "PageNum 3" and q = "''AAPL''"
      and topic = None and n = 3]
  by (simp add: models_up_def)

subsection \<open>The two stages of the analysis\<close>

lemma analyze_content_stages:
  "\<not> models_unavailable md \<Longrightarrow> txt \<noteq> [] \<Longrightarrow>
   analyze_content md (PStr txt) =
     [(''summary'', (case summarization_stage md txt of
                       Inr summary_text \<Rightarrow> summary_text
                     | Inl e \<Rightarrow> PStr ''Error generating summary.'')),
      (''sentiment'', (case sentiment_stage md txt of
                         Inr label \<Rightarrow> label
                       | Inl e \<Rightarrow> PStr ''Error analyzing sentiment.''))]"
  by (simp add: analyze_content_def)




lemmas models_defs = models_up_def summarizer_raises_def sentiment_raises_def both_raise_def
  example_tokenizer_def models_unavailable_def





text \<open>
  Claim C9. With the models available and a non-empty string, the result of
  \<open>analyze_content\<close> has exactly the keys \<^verbatim>\<open>summary\<close> and \<^verbatim>\<open>sentiment\<close> and no key \<^verbatim>\<open>error\<close>, also
  when both stages raise (the two stand-in strings then fill the two slots); the templates
  therefore show such an outcome as an analysis, never as an analysis error.
\<close>

theorem C9_no_error_key:
  assumes "\<not> models_unavailable md" and "txt \<noteq> []"
  shows "map fst (analyze_content md (PStr txt)) = [''summary'', ''sentiment'']
       \<and> map_of (analyze_content md (PStr txt)) ''error'' = None
       \<and> (summarization_stage md txt = Inl e1 \<and> sentiment_stage md txt = Inl e2 \<longrightarrow>
            analyze_content md (PStr txt) =
              [(''summary'', PStr ''Error generating summary.''),
               (''sentiment'', PStr ''Error analyzing sentiment.'')])
       \<and> (\<exists>s eff. analysis_block t (AList.update ''analysis'' (PDict (analyze_content md (PStr txt))) a)
                     = AnalysisShown s eff)"
  using assms
  by (simp add: analyze_content_stages analysis_block_def AList.update_conv' dict_get_def)

theorem C9_no_error_key_witness:
  "\<not> models_unavailable both_raise
   \<and> summarization_stage both_raise ''Fed raises rates'' = Inl (PyExc OtherException ''out of memory'')
   \<and> sentiment_stage both_raise ''Fed raises rates'' = Inl (PyExc OtherException ''out of memory'')
   \<and> analyze_content both_raise (PStr ''Fed raises rates'')
       = [(''summary'', PStr ''Error generating summary.''), (''sentiment'', PStr ''Error analyzing sentiment.'')]
   \<and> map_of (analyze_content both_raise (PStr ''Fed raises rates'')) ''error'' = None"
proof -
  have a: "\<not> models_unavailable both_raise" by (simp add: models_defs)
  have t: "''Fed raises rates'' \<noteq> []" by simp
  have s1: "summarization_stage both_raise ''Fed raises rates'' = Inl (PyExc OtherException ''out of memory'')"
    by (simp add: summarization_stage_def models_defs bind_exc_def)
  have s2: "sentiment_stage both_raise ''Fed raises rates'' = Inl (PyExc OtherException ''out of memory'')"
    by (simp add: sentiment_stage_def models_defs bind_exc_def)
  show ?thesis
    using C9_no_error_key [OF a t, where ?e1.0 = "PyExc OtherException ''out of memory''"
        and ?e2.0 = "PyExc OtherException ''out of memory''"]
    by (simp add: a s1 s2)
qed

subsection \<open>The displayed market effect\<close>

lemma market_effect_cases:
  "(market_effect v = PositiveEffect) = (v = Some (PStr ''POSITIVE''))"
  "(market_effect v = NegativeEffect) = (v = Some (PStr ''NEGATIVE''))"
  "(market_effect v = NeutralEffect) = (v \<noteq> Some (PStr ''POSITIVE'') \<and> v \<noteq> Some (PStr ''NEGATIVE''))"
  by (simp_all add: market_effect_def)

text \<open>
  Claim C7. For every analysis outcome that the templates show as an analysis (a non-empty
  dict without a true \<^verbatim>\<open>error\<close>), the displayed effect is positive exactly when the sentiment
  is the string \<^verbatim>\<open>POSITIVE\<close>, negative exactly when it is \<^verbatim>\<open>NEGATIVE\<close>, and neutral for
  anything else, the sentinel \<^verbatim>\<open>N/A\<close> and the stand-in \<^verbatim>\<open>Error analyzing sentiment.\<close> included.
\<close>

theorem C7_sentiment_display:
  assumes "map_of article ''analysis'' = Some (PDict analysis)"
    and "analysis \<noteq> []" and "\<not> truthy (dict_get analysis ''error'' PNone)"
  shows "analysis_block t article
           = AnalysisShown (map_of analysis ''summary'') (market_effect (map_of analysis ''sentiment''))
       \<and> (market_effect (map_of analysis ''sentiment'') = PositiveEffect)
           = (map_of analysis ''sentiment'' = Some (PStr ''POSITIVE''))
       \<and> (market_effect (map_of analysis ''sentiment'') = NegativeEffect)
           = (map_of analysis ''sentiment'' = Some (PStr ''NEGATIVE''))
       \<and> (market_effect (map_of analysis ''sentiment'') = NeutralEffect)
           = (map_of analysis ''sentiment'' \<noteq> Some (PStr ''POSITIVE'')
              \<and> map_of analysis ''sentiment'' \<noteq> Some (PStr ''NEGATIVE''))
       \<and> market_effect (Some (PStr ''N/A'')) = NeutralEffect
       \<and> market_effect (Some (PStr ''Error analyzing sentiment.'')) = NeutralEffect"
  using assms
  by (simp add: analysis_block_def market_effect_cases)

theorem C7_sentiment_display_witness:
  "analysis_block HTML_RESULTS_TEMPLATE
     (fed_article @ [(''analysis'', PDict [(''summary'', PStr ''Fed raises rates''), (''sentiment'', PStr ''POSITIVE'')])])
     = AnalysisShown (Some (PStr ''Fed raises rates'')) PositiveEffect
   \<and> analysis_block HTML_INDEX_TEMPLATE
     (fed_article @ [(''analysis'', PDict [(''summary'', PStr ''Fed raises rates''), (''sentiment'', PStr ''NEGATIVE'')])])
     = AnalysisShown (Some (PStr ''Fed raises rates'')) NegativeEffect
   \<and> analysis_block HTML_INDEX_TEMPLATE
     (fed_article @ [(''analysis'', PDict [(''summary'', PStr ''Fed raises rates''), (''sentiment'', PStr ''Error analyzing sentiment.'')])])
     = AnalysisShown (Some (PStr ''Fed raises rates'')) NeutralEffect"
proof -
  have m: "map_of (fed_article @ [(''analysis'', PDict an)]) ''analysis'' = Some (PDict an)" for an
    by (simp add: fed_article_def)
  have e: "\<not> truthy (dict_get [(''summary'', PStr ''Fed raises rates''), (''sentiment'', PStr l)] ''error'' PNone)" for l
    by (simp add: dict_get_def)
  have n: "[(''summary'', PStr ''Fed raises rates''), (''sentiment'', PStr l)] \<noteq> []" for l
    by simp
  show ?thesis
    using C7_sentiment_display [OF m n [of "''POSITIVE''"] e [of "''POSITIVE''"],
        where t = HTML_RESULTS_TEMPLATE]
      C7_sentiment_display [OF m n [of "''NEGATIVE''"] e [of "''NEGATIVE''"],
        where t = HTML_INDEX_TEMPLATE]
      C7_sentiment_display [OF m n [of "''Error analyzing sentiment.''"] e [of "''Error analyzing sentiment.''"],
        where t = HTML_INDEX_TEMPLATE]
    by (simp add: market_effect_def)
qed

end
